theory Spec2Isabelle
  imports Main "HOL-Library.Word"
begin

unbundle bit_operations_syntax

section \<open>Entity model (pkg/poker/poker.go)\<close>

text \<open>
  Go's \<^verbatim>\<open>uuid.UUID\<close> is an array of 16 bytes; it is modelled as a 128-bit word.
  \<^verbatim>\<open>String()\<close> of the uuid library renders it canonically as 32 lower-case hexadecimal
  digits grouped 8-4-4-4-12.
\<close>

type_synonym uuid = "128 word"

definition xvalues :: string where
  "xvalues = ''0123456789abcdef''"

definition hex_digit :: "uuid \<Rightarrow> nat \<Rightarrow> char" where
  "hex_digit u i = xvalues ! unat (drop_bit (4 * (31 - i)) u AND 15)"

definition uuid_String :: "uuid \<Rightarrow> string" where
  "uuid_String u =
     map (hex_digit u) [0..<8] @ ''-'' @ map (hex_digit u) [8..<12] @ ''-'' @
     map (hex_digit u) [12..<16] @ ''-'' @ map (hex_digit u) [16..<20] @ ''-'' @
     map (hex_digit u) [20..<32]"

text \<open>\<^verbatim>\<open>type User struct { CreatedAt time.Time; ID uuid.UUID; Name string }\<close>;
  the creation time is only stored, and is kept as a number.\<close>

record user =
  CreatedAt :: int
  ID :: uuid
  Name :: string

definition NewUser :: "uuid \<Rightarrow> string \<Rightarrow> int \<Rightarrow> user" where
  "NewUser iD name createdAt = \<lparr>CreatedAt = createdAt, ID = iD, Name = name\<rparr>"

text \<open>\<^verbatim>\<open>Side\<close>, \<^verbatim>\<open>Suit\<close>, \<^verbatim>\<open>Color\<close> and \<^verbatim>\<open>Class\<close> are Go string types: a value decoded
  from a request can be any string, so they stay strings, with the named constants of the
  source.\<close>

type_synonym Side = string
type_synonym Suit = string
type_synonym Color = string
type_synonym Class = string

definition Cover :: Side where "Cover = ''cover''"
definition Face :: Side where "Face = ''face''"

definition BlankSuit :: Suit where "BlankSuit = ''''"

definition CardClass :: Class where "CardClass = ''card''"
definition ChipClass :: Class where "ChipClass = ''chip''"
definition DealerClass :: Class where "DealerClass = ''dealer''"
definition PlayerClass :: Class where "PlayerClass = ''player''"

text \<open>
  \<^verbatim>\<open>TableItem\<close> embeds \<^verbatim>\<open>Card\<close> (Suit, Rank, Side) and \<^verbatim>\<open>Chip\<close> (Color, Val); Go promotes
  the embedded fields, so the source reads \<^verbatim>\<open>ti.Side\<close>, \<^verbatim>\<open>ti.Rank\<close>. The record is the
  flattened struct. Record fields share one name space in Isabelle, so the item's \<^verbatim>\<open>ID\<close>
  is \<open>ItemID\<close>. The integers are only copied and compared, never computed with.
\<close>

record table_item =
  Suit :: Suit
  Rank :: string
  Side :: Side
  Color :: Color
  Val :: int
  Class :: Class
  OwnerID :: string
  ItemID :: int
  X :: int
  Y :: int

definition NewTableItem :: "int \<Rightarrow> int \<Rightarrow> int \<Rightarrow> table_item" where
  "NewTableItem iD x y =
     \<lparr>Suit = '''', Rank = '''', Side = '''', Color = '''', Val = 0, Class = '''',
      OwnerID = '''', ItemID = iD, X = x, Y = y\<rparr>"

definition AsCard :: "table_item \<Rightarrow> Suit \<Rightarrow> string \<Rightarrow> Side \<Rightarrow> table_item" where
  "AsCard ti suit rank side = ti\<lparr>Suit := suit, Rank := rank, Side := side, Class := CardClass\<rparr>"

definition AsChip :: "table_item \<Rightarrow> Color \<Rightarrow> int \<Rightarrow> table_item" where
  "AsChip ti color val = ti\<lparr>Color := color, Val := val, Class := ChipClass\<rparr>"

definition Is :: "table_item \<Rightarrow> Class \<Rightarrow> bool" where
  "Is ti cls = (Class ti = cls)"

definition IsOwnedBy :: "table_item \<Rightarrow> uuid \<Rightarrow> bool" where
  "IsOwnedBy ti iD = (OwnerID ti = uuid_String iD)"

definition IsOwned :: "table_item \<Rightarrow> bool" where
  "IsOwned ti = (OwnerID ti \<noteq> '''')"

subsection \<open>The visibility filter\<close>

text \<open>
  \<^verbatim>\<open>ApplyVisibilityRules\<close> mutates its receiver; the model returns the item after the call.
  The three \<^verbatim>\<open>if\<close> statements of the source run in sequence, each on the item the
  previous one left.
\<close>

definition ApplyVisibilityRules :: "table_item \<Rightarrow> user \<Rightarrow> table_item" where
  "ApplyVisibilityRules ti curUser =
     (if \<not> Is ti CardClass then ti
      else
        let ti1 = (if IsOwnedBy ti (ID curUser) then ti\<lparr>Side := Face\<rparr> else ti);
            isOwnedBySomeoneElse = (IsOwned ti1 \<and> \<not> IsOwnedBy ti1 (ID curUser));
            ti2 = (if isOwnedBySomeoneElse then ti1\<lparr>Side := Cover\<rparr> else ti1)
        in if Side ti2 = Cover then ti2\<lparr>Rank := '''', Suit := BlankSuit\<rparr> else ti2)"

subsection \<open>Channels, the log and the lock trace\<close>

text \<open>
  A Go channel is a shared object: the player record and the connection loop both hold a
  reference to it. Channels live in a heap (a list; a reference is a position in it,
  \<open>make_chan\<close> allocates at the end). What a sender has put on a channel is kept in its
  \<open>queue\<close>; the rendezvous with the receiving loop is outside this sequential model.
  The \<open>world\<close> also holds the lines written by \<^verbatim>\<open>logger.Error\<close> and the trace of lock
  and send events of the running task.
\<close>

type_synonym PushType = string

definition Refresh :: PushType where "Refresh = ''refresh''"
definition PlayerJoined :: PushType where "PlayerJoined = ''player_joined''"
definition UpdateItems :: PushType where "UpdateItems = ''update_items''"

text \<open>\<^verbatim>\<open>Player\<close> embeds \<^verbatim>\<open>*User\<close> (\<^verbatim>\<open>p.Name\<close> is \<open>Name (User p)\<close>); \<^verbatim>\<open>updates\<close> is the
  attached channel, \<open>None\<close> for \<^verbatim>\<open>nil\<close>. The player's \<^verbatim>\<open>Color\<close> is \<open>PlayerColor\<close>.\<close>

record player =
  User :: user
  PlayerColor :: Color
  Skin :: string
  Index :: int
  updates :: "nat option"

definition newPlayer :: "user \<Rightarrow> Color \<Rightarrow> player" where
  "newPlayer u c = \<lparr>User = u, PlayerColor = c, Skin = '''', Index = 0, updates = None\<rparr>"

text \<open>\<^verbatim>\<open>Push\<close>: a Go map is an association list with one entry for each key, a \<^verbatim>\<open>nil\<close>
  map or slice is the empty list.\<close>

record push =
  Type :: PushType
  PushItems :: "table_item list"
  PushPlayers :: "(uuid \<times> player) list"

definition NewPushItems :: "table_item list \<Rightarrow> push" where
  "NewPushItems items = \<lparr>Type = UpdateItems, PushItems = items, PushPlayers = []\<rparr>"

definition NewPushPlayerJoined :: "(uuid \<times> player) list \<Rightarrow> table_item list \<Rightarrow> push" where
  "NewPushPlayerJoined players items =
     \<lparr>Type = PlayerJoined, PushItems = items, PushPlayers = players\<rparr>"

definition NewPushRefresh :: push where
  "NewPushRefresh = \<lparr>Type = Refresh, PushItems = [], PushPlayers = []\<rparr>"

record channel =
  closed :: bool
  queue :: "push list"

datatype event = EvLock | EvUnlock | EvRLock | EvRUnlock | EvSend nat

record world =
  chans :: "channel list"
  logs :: "string list"
  trace :: "event list"

text \<open>A call either returns a value or panics with a message; both leave a world.\<close>

datatype 'a outcome = Returned 'a world | Panicked string world

definition make_chan :: "world \<Rightarrow> nat \<times> world" where
  "make_chan w = (length (chans w), w\<lparr>chans := chans w @ [\<lparr>closed = False, queue = []\<rparr>]\<rparr>)"

text \<open>
  The Go runtime: a send on a closed channel panics, closing a closed channel panics.
  A reference outside the heap does not arise (references come from \<open>make_chan\<close>); the
  model panics there too.
\<close>

definition chan_send :: "nat \<Rightarrow> push \<Rightarrow> world \<Rightarrow> unit outcome" where
  "chan_send c v w =
     (if c < length (chans w) \<and> \<not> closed (chans w ! c)
      then Returned ()
             (w\<lparr>chans := (chans w)[c := (chans w ! c)\<lparr>queue := queue (chans w ! c) @ [v]\<rparr>],
                trace := trace w @ [EvSend c]\<rparr>)
      else Panicked ''send on closed channel'' w)"

definition chan_close :: "nat \<Rightarrow> world \<Rightarrow> unit outcome" where
  "chan_close c w =
     (if c < length (chans w) \<and> \<not> closed (chans w ! c)
      then Returned () (w\<lparr>chans := (chans w)[c := (chans w ! c)\<lparr>closed := True\<rparr>]\<rparr>)
      else Panicked ''close of closed channel'' w)"

definition Error_Printf :: "string \<Rightarrow> world \<Rightarrow> world" where
  "Error_Printf msg w = w\<lparr>logs := logs w @ [msg]\<rparr>"

subsection \<open>Player: Dispatch, Subscribe, Unsubscribe\<close>

text \<open>
  \<open>Dispatch_body\<close> is the body of \<^verbatim>\<open>Dispatch\<close>; \<open>Dispatch\<close> adds the deferred function:
  \<^verbatim>\<open>recover()\<close> stops a panic of the body, the message is logged, and the call returns
  the zero value of its result (\<^verbatim>\<open>nil\<close>, here \<open>None\<close>) since \<^verbatim>\<open>return p\<close> was not reached.
\<close>

definition Dispatch_body :: "player \<Rightarrow> push \<Rightarrow> world \<Rightarrow> player option outcome" where
  "Dispatch_body p push w =
     (case updates p of
        None \<Rightarrow> Returned (Some p) w
      | Some c \<Rightarrow>
          (case chan_send c push w of
             Returned u w' \<Rightarrow> Returned (Some p) w'
           | Panicked r w' \<Rightarrow> Panicked r w'))"

definition Dispatch :: "player \<Rightarrow> push \<Rightarrow> world \<Rightarrow> player option outcome" where
  "Dispatch p push w =
     (case Dispatch_body p push w of
        Returned v w' \<Rightarrow> Returned v w'
      | Panicked r w' \<Rightarrow>
          Returned None
            (Error_Printf (''Player.Dispatch name='' @ Name (User p) @ '' panic: '' @ r) w'))"

fun NotifyAll :: "player list \<Rightarrow> push \<Rightarrow> world \<Rightarrow> unit outcome" where
  "NotifyAll [] push w = Returned () w"
| "NotifyAll (p # pl) push w =
     (case Dispatch p push w of
        Returned v w' \<Rightarrow> NotifyAll pl push w'
      | Panicked r w' \<Rightarrow> Panicked r w')"

text \<open>
  \<^verbatim>\<open>Subscribe\<close> and \<^verbatim>\<open>Unsubscribe\<close> mutate the player: the returned pair is the player
  after the call and the Go result (the receiver, or \<^verbatim>\<open>nil\<close> after a recovered panic).
  In \<^verbatim>\<open>Subscribe\<close> the deferred \<^verbatim>\<open>recover\<close> is registered before \<^verbatim>\<open>close\<close>: when
  \<^verbatim>\<open>close\<close> panics, the assignment \<^verbatim>\<open>p.updates = updates\<close> is not reached.
  \<^verbatim>\<open>Unsubscribe\<close> has no \<^verbatim>\<open>recover\<close>.
\<close>

definition Subscribe :: "player \<Rightarrow> nat \<Rightarrow> world \<Rightarrow> (player \<times> player option) outcome" where
  "Subscribe p new w =
     (case updates p of
        None \<Rightarrow> (let p' = p\<lparr>updates := Some new\<rparr> in Returned (p', Some p') w)
      | Some old \<Rightarrow>
          (case chan_close old w of
             Returned u w' \<Rightarrow> (let p' = p\<lparr>updates := Some new\<rparr> in Returned (p', Some p') w')
           | Panicked r w' \<Rightarrow>
               Returned (p, None)
                 (Error_Printf (''Player.Subscribe name='' @ Name (User p) @ '' panic: '' @ r) w')))"

definition Unsubscribe :: "player \<Rightarrow> world \<Rightarrow> (player \<times> player option) outcome" where
  "Unsubscribe p w =
     (case updates p of
        None \<Rightarrow> Returned (p, Some p) w
      | Some c \<Rightarrow>
          (case chan_close c w of
             Returned u w' \<Rightarrow> (let p' = p\<lparr>updates := None\<rparr> in Returned (p', Some p') w')
           | Panicked r w' \<Rightarrow> Panicked r w'))"

section \<open>The table and the request handlers\<close>

text \<open>
  The \<^verbatim>\<open>Table\<close> type is declared in a source file that is missing; the handlers use its fields
  \<^verbatim>\<open>ID\<close> (here \<open>TableID\<close>), \<^verbatim>\<open>Items\<close> (a \<^verbatim>\<open>TableItemList\<close>, a slice of item pointers) and
  \<^verbatim>\<open>Players\<close> (a map from user id to player pointer). The items are a list, an item
  pointer is a position in it; the map is an association list read with \<open>map_of\<close>.
\<close>

record table =
  TableID :: uuid
  Items :: "table_item list"
  Players :: "(uuid \<times> player) list"

text \<open>\<^verbatim>\<open>TableItemList.Get\<close>: the first item with the id, as a pointer; \<open>None\<close> is \<^verbatim>\<open>nil\<close>.\<close>

fun Get :: "table_item list \<Rightarrow> int \<Rightarrow> nat option" where
  "Get [] iD = None"
| "Get (it # l) iD = (if ItemID it = iD then Some 0 else map_option Suc (Get l iD))"

text \<open>\<^verbatim>\<open>len\<close> of a Go map: the number of its keys.\<close>

definition len_map :: "('k \<times> 'v) list \<Rightarrow> nat" where
  "len_map m = length (remdups (map fst m))"

definition maxPlayers :: nat where
  "maxPlayers = 3"

text \<open>\<^verbatim>\<open>httpx.NewError(status, message)\<close> is \<open>HTTPError\<close>; any other Go error (reading or
  decoding the request) is \<open>OtherError\<close>.\<close>

datatype error = HTTPError nat string | OtherError string

definition StatusOK :: nat where "StatusOK = 200"
definition StatusBadRequest :: nat where "StatusBadRequest = 400"
definition StatusForbidden :: nat where "StatusForbidden = 403"
definition StatusNotFound :: nat where "StatusNotFound = 404"

text \<open>\<^verbatim>\<open>httpx.Redirect(url)\<close> and \<^verbatim>\<open>httpx.JSON(code, ItemUpdatedResponse{Updated: &item})\<close>.\<close>

datatype response = Redirect string | JSONItem nat table_item

text \<open>
  Modelled from the spec: the source of \<^verbatim>\<open>Table.Update\<close>, the exclusive transaction, is
  missing. It takes sole write access to the table, runs the function with direct access
  to the table, and releases the lock on return, success or error, before it returns to
  its caller with the function's error. Taking and releasing the lock are events of the
  trace. The function returns its error or the values it assigned to the variables of the
  enclosing handler. Nothing is said of a panicking function; the panic is passed on.
\<close>

definition Update ::
  "(table \<Rightarrow> world \<Rightarrow> ((error + 'a) \<times> table) outcome) \<Rightarrow> table \<Rightarrow> world \<Rightarrow>
   ((error + 'a) \<times> table) outcome" where
  "Update fn t w =
     (case fn t (w\<lparr>trace := trace w @ [EvLock]\<rparr>) of
        Returned rt w' \<Rightarrow> Returned rt (w'\<lparr>trace := trace w' @ [EvUnlock]\<rparr>)
      | Panicked r w' \<Rightarrow> Panicked r w')"

text \<open>
  Modelled from the spec: the source of \<^verbatim>\<open>Table.ReadLock\<close>, the shared snapshot, is
  missing. It acquires a read-only section, runs the function and releases the section.
\<close>

definition ReadLock ::
  "(table \<Rightarrow> world \<Rightarrow> ((error + 'a) \<times> table) outcome) \<Rightarrow> table \<Rightarrow> world \<Rightarrow>
   ((error + 'a) \<times> table) outcome" where
  "ReadLock fn t w =
     (case fn t (w\<lparr>trace := trace w @ [EvRLock]\<rparr>) of
        Returned rt w' \<Rightarrow> Returned rt (w'\<lparr>trace := trace w' @ [EvRUnlock]\<rparr>)
      | Panicked r w' \<Rightarrow> Panicked r w')"

text \<open>
  Modelled from the spec: the source of \<^verbatim>\<open>Table.OtherPlayers\<close> is missing. It is a pure
  read returning every currently seated player except the user. The players come in the
  order of the association list (Go fixes no order for a map).
\<close>

definition OtherPlayers :: "table \<Rightarrow> user \<Rightarrow> player list" where
  "OtherPlayers t u = map snd (filter (\<lambda>kp. fst kp \<noteq> ID u) (Players t))"

text \<open>
  Modelled from the spec: the source of \<^verbatim>\<open>TableItem.Take\<close> is missing. It sets the
  owner id to the user and the orientation to cover, the default for the other viewers,
  and returns the updated item (the receiver).
\<close>

definition Take :: "table_item \<Rightarrow> user \<Rightarrow> table_item" where
  "Take ti u = ti\<lparr>OwnerID := uuid_String (ID u), Side := Cover\<rparr>"

subsection \<open>update-item\<close>

text \<open>
  \<^verbatim>\<open>updateItem(ctx, r)\<close>: \<open>body\<close> is what reading and decoding the request body gives,
  \<open>Inl\<close> the error of \<^verbatim>\<open>io.ReadAll\<close> or \<^verbatim>\<open>json.Unmarshal\<close>, \<open>Inr\<close> the decoded item
  \<^verbatim>\<open>src\<close>. The result is the pointer \<^verbatim>\<open>dest\<close> and the table after the writes through it.
\<close>

definition updateItem :: "user \<Rightarrow> string + table_item \<Rightarrow> table \<Rightarrow> (error + nat) \<times> table" where
  "updateItem curUser body tbl =
     (if map_of (Players tbl) (ID curUser) = None
      then (Inl (HTTPError StatusForbidden ''you are not at the table''), tbl)
      else
        (case body of
           Inl e \<Rightarrow> (Inl (OtherError e), tbl)
         | Inr src \<Rightarrow>
             (case Get (Items tbl) (ItemID src) of
                None \<Rightarrow> (Inl (HTTPError StatusNotFound ''item not found''), tbl)
              | Some d \<Rightarrow>
                  (let dest = Items tbl ! d in
                   if Class dest \<noteq> Class src
                   then (Inl (HTTPError StatusBadRequest
                                ''attempt to update readonly field .Class''), tbl)
                   else
                     (let dest1 = dest\<lparr>X := X src, Y := Y src\<rparr>;
                          dest2 = (if Side dest1 \<noteq> Side src
                                   then (if \<not> IsOwned dest1 \<or> IsOwnedBy dest1 (ID curUser)
                                         then dest1\<lparr>Side := Side src\<rparr> else dest1)
                                   else dest1)
                      in (Inr d, tbl\<lparr>Items := (Items tbl)[d := dest2]\<rparr>))))))"

text \<open>The function passed to \<^verbatim>\<open>table.Update\<close> in \<^verbatim>\<open>updateTable\<close>: on success it assigns
  \<^verbatim>\<open>updated = *up\<close> and \<^verbatim>\<open>notifyThem\<close>.\<close>

definition updateTable_tx ::
  "user \<Rightarrow> string + table_item \<Rightarrow> table \<Rightarrow> (error + table_item \<times> player list) \<times> table" where
  "updateTable_tx curUser body t =
     (case updateItem curUser body t of
        (Inl err, t') \<Rightarrow> (Inl err, t')
      | (Inr up, t') \<Rightarrow> (Inr (Items t' ! up, OtherPlayers t' curUser), t'))"

definition updateTable ::
  "user \<Rightarrow> string + table_item \<Rightarrow> table \<Rightarrow> world \<Rightarrow> ((error + response) \<times> table) outcome" where
  "updateTable curUser body tbl w =
     (case Update (\<lambda>t w1. Returned (updateTable_tx curUser body t) w1) tbl w of
        Panicked r w' \<Rightarrow> Panicked r w'
      | Returned (Inl err, t') w' \<Rightarrow> Returned (Inl err, t') w'
      | Returned (Inr (updated, notifyThem), t') w' \<Rightarrow>
          (case NotifyAll notifyThem (NewPushItems [updated]) w' of
             Panicked r w'' \<Rightarrow> Panicked r w''
           | Returned u w'' \<Rightarrow> Returned (Inr (JSONItem StatusOK updated), t') w''))"

subsection \<open>join\<close>

text \<open>
  The source of \<^verbatim>\<open>Table.Join\<close> is missing; \<open>joinTable\<close> takes it as the parameter
  \<open>Join\<close>, which gives the new items and the table after the join. The function passed
  to \<^verbatim>\<open>Update\<close> assigns \<^verbatim>\<open>updated\<close>, \<^verbatim>\<open>players\<close> and \<^verbatim>\<open>notifyThem\<close>; when the user has
  joined already it returns \<^verbatim>\<open>nil\<close> and leaves all three \<^verbatim>\<open>nil\<close>.
\<close>

definition joinTable_tx ::
  "(table \<Rightarrow> user \<Rightarrow> table_item list \<times> table) \<Rightarrow> user \<Rightarrow> table \<Rightarrow>
   (error + (uuid \<times> player) list \<times> table_item list \<times> player list) \<times> table" where
  "joinTable_tx Join u t =
     (let hasJoined = (map_of (Players t) (ID u) \<noteq> None) in
      if hasJoined then (Inr ([], [], []), t)
      else if len_map (Players t) \<ge> maxPlayers
      then (Inl (HTTPError StatusForbidden ''this table is full''), t)
      else
        (let (updated, t') = Join t u;
             players = Players t';
             notifyThem = OtherPlayers t' u
         in (Inr (players, updated, notifyThem), t')))"

definition joinTable ::
  "(table \<Rightarrow> user \<Rightarrow> table_item list \<times> table) \<Rightarrow> user \<Rightarrow> table \<Rightarrow> world \<Rightarrow>
   ((error + response) \<times> table) outcome" where
  "joinTable Join u tbl w =
     (case Update (\<lambda>t w1. Returned (joinTable_tx Join u t) w1) tbl w of
        Panicked r w' \<Rightarrow> Panicked r w'
      | Returned (Inl err, t') w' \<Rightarrow> Returned (Inl err, t') w'
      | Returned (Inr (players, updated, notifyThem), t') w' \<Rightarrow>
          (case NotifyAll notifyThem (NewPushPlayerJoined players updated) w' of
             Panicked r w'' \<Rightarrow> Panicked r w''
           | Returned x w'' \<Rightarrow>
               Returned (Inr (Redirect (''/games/'' @ uuid_String (TableID t'))), t') w''))"

subsection \<open>take-item\<close>

text \<open>
  \<^verbatim>\<open>takeCard\<close>: \<open>body\<close> is what decoding the request body into a \<^verbatim>\<open>map[string]int\<close>
  gives. \<open>takeCard_tx\<close> is the function passed to \<^verbatim>\<open>Update\<close>; it assigns
  \<^verbatim>\<open>updated = *item.Take(ctx.user)\<close>, a copy of the item. \<open>takeCard_notify\<close> is the
  function passed to \<^verbatim>\<open>ReadLock\<close>.
\<close>

definition takeCard_tx :: "user \<Rightarrow> int \<Rightarrow> table \<Rightarrow> (error + table_item) \<times> table" where
  "takeCard_tx u iD t =
     (if map_of (Players t) (ID u) = None
      then (Inl (HTTPError StatusForbidden ''you are not at the table''), t)
      else
        (case Get (Items t) iD of
           None \<Rightarrow> (Inl (HTTPError StatusNotFound ''item not found''), t)
         | Some i \<Rightarrow>
             (let item = Take (Items t ! i) u
              in (Inr item, t\<lparr>Items := (Items t)[i := item]\<rparr>))))"

definition takeCard_notify ::
  "user \<Rightarrow> table_item \<Rightarrow> table \<Rightarrow> world \<Rightarrow> ((error + unit) \<times> table) outcome" where
  "takeCard_notify u updated t w =
     (case NotifyAll (OtherPlayers t u) (NewPushItems [updated]) w of
        Panicked r w' \<Rightarrow> Panicked r w'
      | Returned x w' \<Rightarrow> Returned (Inr (), t) w')"

definition takeCard ::
  "user \<Rightarrow> string + (string \<times> int) list \<Rightarrow> table \<Rightarrow> world \<Rightarrow>
   ((error + response) \<times> table) outcome" where
  "takeCard u body tbl w =
     (case body of
        Inl e \<Rightarrow> Returned (Inl (OtherError e), tbl) w
      | Inr req \<Rightarrow>
          (case map_of req ''id'' of
             None \<Rightarrow> Returned (Inl (HTTPError StatusBadRequest ''id field is missing''), tbl) w
           | Some iD \<Rightarrow>
               (case Update (\<lambda>t w1. Returned (takeCard_tx u iD t) w1) tbl w of
                  Panicked r w' \<Rightarrow> Panicked r w'
                | Returned (Inl err, t') w' \<Rightarrow> Returned (Inl err, t') w'
                | Returned (Inr updated0, t') w' \<Rightarrow>
                    (let updated = updated0\<lparr>Side := Face\<rparr> in
                     case ReadLock (takeCard_notify u updated) t' w' of
                       Panicked r w'' \<Rightarrow> Panicked r w''
                     | Returned rt w'' \<Rightarrow>
                         Returned (Inr (JSONItem StatusOK updated), snd rt) w''))))"

subsection \<open>Sends and locks\<close>

text \<open>A trace has no send under a lock when every \<open>EvSend\<close> comes while the task holds
  neither the exclusive nor the shared lock; \<open>held\<close> counts the locks taken and not yet
  released.\<close>

fun sends_outside_locks :: "nat \<Rightarrow> event list \<Rightarrow> bool" where
  "sends_outside_locks held [] = True"
| "sends_outside_locks held (EvLock # es) = sends_outside_locks (Suc held) es"
| "sends_outside_locks held (EvRLock # es) = sends_outside_locks (Suc held) es"
| "sends_outside_locks held (EvUnlock # es) = sends_outside_locks (held - 1) es"
| "sends_outside_locks held (EvRUnlock # es) = sends_outside_locks (held - 1) es"
| "sends_outside_locks held (EvSend c # es) = (held = 0 \<and> sends_outside_locks held es)"

section \<open>Example data\<close>

text \<open>Four users, and the card of the scenario: item 7, an unowned ace of spades lying
  cover up (the suit is the UTF-8 encoding of the spade sign).\<close>

definition userA :: user where "userA = NewUser 1 ''alice'' 0"
definition userB :: user where "userB = NewUser 2 ''bob'' 0"
definition userC :: user where "userC = NewUser 3 ''carol'' 0"
definition userD :: user where "userD = NewUser 4 ''dave'' 0"

definition Spades :: Suit where
  "Spades = [CHR 0xE2, CHR 0x99, CHR 0xA0]"

definition card7 :: table_item where
  "card7 = AsCard (NewTableItem 7 10 20) Spades ''A'' Cover"

definition chip8 :: table_item where
  "chip8 = AsChip (NewTableItem 8 30 40) ''red'' 5"

text \<open>The card held by \<open>userA\<close>; a table where \<open>userA\<close> and \<open>userB\<close> sit, and the same
  table with \<open>userC\<close> as the third player. \<open>userB\<close> listens on channel 0 of \<open>world1\<close>.\<close>

definition cardA :: table_item where
  "cardA = card7\<lparr>OwnerID := uuid_String (ID userA)\<rparr>"

definition playerA :: player where
  "playerA = newPlayer userA ''#FF5733''"

definition playerB :: player where
  "playerB = (newPlayer userB ''#9B59B6'')\<lparr>Index := 1, updates := Some 0\<rparr>"

definition playerC :: player where
  "playerC = (newPlayer userC ''#2ECC71'')\<lparr>Index := 2\<rparr>"

definition table2 :: table where
  "table2 = \<lparr>TableID = 9, Items = [chip8, cardA],
             Players = [(ID userA, playerA), (ID userB, playerB)]\<rparr>"

definition table3 :: table where
  "table3 = \<lparr>TableID = 9, Items = [chip8, card7],
             Players = [(ID userA, playerA), (ID userB, playerB), (ID userC, playerC)]\<rparr>"

definition world0 :: world where
  "world0 = \<lparr>chans = [], logs = [], trace = []\<rparr>"

definition world1 :: world where
  "world1 = \<lparr>chans = [\<lparr>closed = False, queue = []\<rparr>], logs = [], trace = []\<rparr>"

text \<open>\<open>table3\<close> after \<open>userA\<close> has taken card 7, and the card as the taker gets it back.\<close>

definition cardA_face :: table_item where
  "cardA_face = card7\<lparr>OwnerID := uuid_String 1, Side := Face\<rparr>"

definition table3_taken :: table where
  "table3_taken = table3\<lparr>Items := [chip8, card7\<lparr>OwnerID := uuid_String 1, Side := Cover\<rparr>]\<rparr>"

text \<open>\<open>playerA\<close> listening on channel 0; the world after the listen loop of that connection
  has closed channel 0 itself (\<^verbatim>\<open>close(updates)\<close> on a broken pipe, without
  \<^verbatim>\<open>Unsubscribe\<close>), and the world once a new connection has made channel 1.\<close>

definition playerA_listening :: player where
  "playerA_listening = playerA\<lparr>updates := Some 0\<rparr>"

definition world_gone :: world where
  "world_gone = \<lparr>chans = [\<lparr>closed = True, queue = []\<rparr>], logs = [], trace = []\<rparr>"

definition world_again :: world where
  "world_again = \<lparr>chans = [\<lparr>closed = True, queue = []\<rparr>, \<lparr>closed = False, queue = []\<rparr>],
                  logs = [], trace = []\<rparr>"

section \<open>The visibility filter: properties\<close>

lemma Face_neq_Cover: "Face \<noteq> Cover"
  by (simp add: Face_def Cover_def)

lemma length_uuid_String: "length (uuid_String u) = 36"
  by (simp add: uuid_String_def)

lemma uuid_String_nonempty: "uuid_String u \<noteq> ''''"
  using length_uuid_String [of u] by auto

lemma IsOwnedBy_IsOwned: "IsOwnedBy ti iD \<Longrightarrow> IsOwned ti"
  by (simp add: IsOwnedBy_def IsOwned_def uuid_String_nonempty)

lemma uuid_String_12: "uuid_String 1 \<noteq> uuid_String 2"
  by code_simp

lemma card7_simps:
  "Class card7 = CardClass" "Rank card7 = ''A''" "Suit card7 = Spades" "Side card7 = Cover"
  "OwnerID card7 = ''''" "ItemID card7 = 7" "X card7 = 10" "Y card7 = 20"
  by (simp_all add: card7_def AsCard_def NewTableItem_def)

lemma user_simps:
  "ID userA = 1" "ID userB = 2" "ID userC = 3" "ID userD = 4"
  "Name userA = ''alice''" "Name userB = ''bob''" "Name userC = ''carol''"
  "Name userD = ''dave''"
  by (simp_all add: userA_def userB_def userC_def userD_def NewUser_def)

text \<open>
  Claim C1. The visibility filter leaves an item that is not a card unchanged. A card owned
  by the viewer comes out face up with the rank and suit it has. A card owned by someone
  else (its owner id is not empty and is not the viewer's) comes out as cover with blank
  rank and suit, whatever orientation is stored. And a card whose filtered orientation is
  cover has blank rank and suit (orientation is an attribute of cards; the first part
  covers every other item).
\<close>

theorem ApplyVisibilityRules_spec:
  "(\<not> Is ti CardClass \<longrightarrow> ApplyVisibilityRules ti viewer = ti) \<and>
   (Is ti CardClass \<and> IsOwnedBy ti (ID viewer) \<longrightarrow>
      Side (ApplyVisibilityRules ti viewer) = Face \<and>
      Rank (ApplyVisibilityRules ti viewer) = Rank ti \<and>
      Suit (ApplyVisibilityRules ti viewer) = Suit ti) \<and>
   (Is ti CardClass \<and> IsOwned ti \<and> \<not> IsOwnedBy ti (ID viewer) \<longrightarrow>
      Side (ApplyVisibilityRules ti viewer) = Cover \<and>
      Rank (ApplyVisibilityRules ti viewer) = '''' \<and>
      Suit (ApplyVisibilityRules ti viewer) = BlankSuit) \<and>
   (Is ti CardClass \<and> Side (ApplyVisibilityRules ti viewer) = Cover \<longrightarrow>
      Rank (ApplyVisibilityRules ti viewer) = '''' \<and>
      Suit (ApplyVisibilityRules ti viewer) = BlankSuit)"
  by (simp add: ApplyVisibilityRules_def Let_def IsOwnedBy_def IsOwned_def Face_neq_Cover)

text \<open>The filter at a chip, at a card seen by its owner, and at a card that its owner has
  turned face up, seen by another player.\<close>

theorem ApplyVisibilityRules_spec_witness:
  "\<not> Is chip8 CardClass \<and> ApplyVisibilityRules chip8 userA = chip8 \<and>
   Is (card7\<lparr>OwnerID := uuid_String 1\<rparr>) CardClass \<and>
   IsOwnedBy (card7\<lparr>OwnerID := uuid_String 1\<rparr>) (ID userA) \<and>
   Side (ApplyVisibilityRules (card7\<lparr>OwnerID := uuid_String 1\<rparr>) userA) = Face \<and>
   Rank (ApplyVisibilityRules (card7\<lparr>OwnerID := uuid_String 1\<rparr>) userA) = ''A'' \<and>
   Suit (ApplyVisibilityRules (card7\<lparr>OwnerID := uuid_String 1\<rparr>) userA) = Spades \<and>
   IsOwned (card7\<lparr>OwnerID := uuid_String 1, Side := Face\<rparr>) \<and>
   \<not> IsOwnedBy (card7\<lparr>OwnerID := uuid_String 1, Side := Face\<rparr>) (ID userB) \<and>
   Side (ApplyVisibilityRules (card7\<lparr>OwnerID := uuid_String 1, Side := Face\<rparr>) userB) = Cover \<and>
   Rank (ApplyVisibilityRules (card7\<lparr>OwnerID := uuid_String 1, Side := Face\<rparr>) userB) = '''' \<and>
   Suit (ApplyVisibilityRules (card7\<lparr>OwnerID := uuid_String 1, Side := Face\<rparr>) userB) = ''''"
proof -
  let ?own = "card7\<lparr>OwnerID := uuid_String 1\<rparr>"
  let ?shown = "card7\<lparr>OwnerID := uuid_String 1, Side := Face\<rparr>"
  have h1: "\<not> Is chip8 CardClass"
    by (simp add: Is_def chip8_def AsChip_def NewTableItem_def ChipClass_def CardClass_def)
  have h2: "Is ?own CardClass \<and> IsOwnedBy ?own (ID userA)"
    by (simp add: Is_def IsOwnedBy_def card7_simps user_simps)
  have h3: "Is ?shown CardClass \<and> IsOwned ?shown \<and> \<not> IsOwnedBy ?shown (ID userB)"
    by (simp add: Is_def IsOwnedBy_def IsOwned_def card7_simps user_simps
        uuid_String_nonempty uuid_String_12)
  have c1: "ApplyVisibilityRules chip8 userA = chip8"
    using ApplyVisibilityRules_spec [of chip8 userA] h1 by blast
  have c2: "Side (ApplyVisibilityRules ?own userA) = Face \<and>
      Rank (ApplyVisibilityRules ?own userA) = Rank ?own \<and>
      Suit (ApplyVisibilityRules ?own userA) = Suit ?own"
    using ApplyVisibilityRules_spec [of ?own userA] h2 by blast
  have c3: "Side (ApplyVisibilityRules ?shown userB) = Cover \<and>
      Rank (ApplyVisibilityRules ?shown userB) = '''' \<and>
      Suit (ApplyVisibilityRules ?shown userB) = BlankSuit"
    using ApplyVisibilityRules_spec [of ?shown userB] h3 by blast
  show ?thesis
    using h1 h2 h3 c1 c2 c3 by (simp add: card7_simps BlankSuit_def)
qed

text \<open>
  Claim C6. The visibility filter is idempotent: for every item and viewer, filtering the
  filtered item again for the same viewer gives the filtered item.
\<close>

theorem ApplyVisibilityRules_idempotent:
  "ApplyVisibilityRules (ApplyVisibilityRules ti viewer) viewer = ApplyVisibilityRules ti viewer"
  by (simp add: ApplyVisibilityRules_def Let_def Is_def IsOwnedBy_def IsOwned_def Face_neq_Cover)

text \<open>Filtering twice the card that \<open>userA\<close> holds face up, for \<open>userB\<close>: the covered,
  blanked card.\<close>

theorem ApplyVisibilityRules_idempotent_witness:
  "ApplyVisibilityRules
     (ApplyVisibilityRules (card7\<lparr>OwnerID := uuid_String 1, Side := Face\<rparr>) userB) userB
   = card7\<lparr>OwnerID := uuid_String 1, Rank := '''', Suit := ''''\<rparr>"
  using ApplyVisibilityRules_idempotent [of "card7\<lparr>OwnerID := uuid_String 1, Side := Face\<rparr>" userB]
  by (simp add: ApplyVisibilityRules_def Let_def Is_def IsOwnedBy_def IsOwned_def card7_simps
      user_simps uuid_String_nonempty uuid_String_12 BlankSuit_def card7_def AsCard_def
      NewTableItem_def)

section \<open>update-item: properties\<close>

lemma Get_Some: "Get l iD = Some i \<Longrightarrow> i < length l \<and> ItemID (l ! i) = iD"
  by (induction l arbitrary: i) (auto split: if_splits)

lemma Get_None: "Get l iD = None \<longleftrightarrow> iD \<notin> ItemID ` set l"
  by (induction l) auto

lemma Side_same:
  "Side r = s \<Longrightarrow> r\<lparr>X := x, Y := y, Side := s\<rparr> = r\<lparr>X := x, Y := y\<rparr>"
  by (cases r) simp

text \<open>
  Claim C3. Update-item fails as forbidden when the requesting user is not seated at the
  table. For a seated user, a stored item \<open>Items tbl ! d\<close> found under the proposed
  item's id and a proposed item \<open>src\<close>: it fails as a bad request when the classes
  differ; otherwise it writes the proposed x and y to the stored item, and the proposed
  orientation exactly when the stored item is unowned or owned by the requesting user. In
  particular, for an item owned by a different user the stored orientation stays and the
  position is the proposed one.
\<close>

theorem updateItem_spec:
  "(map_of (Players tbl) (ID u) = None \<longrightarrow>
      updateItem u body tbl = (Inl (HTTPError StatusForbidden ''you are not at the table''), tbl)) \<and>
   (map_of (Players tbl) (ID u) \<noteq> None \<and> Get (Items tbl) (ItemID src) = Some d \<and>
    Class (Items tbl ! d) \<noteq> Class src \<longrightarrow>
      updateItem u (Inr src) tbl =
        (Inl (HTTPError StatusBadRequest ''attempt to update readonly field .Class''), tbl)) \<and>
   (map_of (Players tbl) (ID u) \<noteq> None \<and> Get (Items tbl) (ItemID src) = Some d \<and>
    Class (Items tbl ! d) = Class src \<longrightarrow>
      updateItem u (Inr src) tbl =
        (Inr d, tbl\<lparr>Items := (Items tbl)[d := (Items tbl ! d)
           \<lparr>X := X src, Y := Y src,
            Side := (if \<not> IsOwned (Items tbl ! d) \<or> IsOwnedBy (Items tbl ! d) (ID u)
                     then Side src else Side (Items tbl ! d))\<rparr>]\<rparr>)) \<and>
   (map_of (Players tbl) (ID u) \<noteq> None \<and> Get (Items tbl) (ItemID src) = Some d \<and>
    Class (Items tbl ! d) = Class src \<and>
    IsOwned (Items tbl ! d) \<and> \<not> IsOwnedBy (Items tbl ! d) (ID u) \<longrightarrow>
      Side (Items (snd (updateItem u (Inr src) tbl)) ! d) = Side (Items tbl ! d) \<and>
      X (Items (snd (updateItem u (Inr src) tbl)) ! d) = X src \<and>
      Y (Items (snd (updateItem u (Inr src) tbl)) ! d) = Y src)"
proof (intro conjI impI)
  assume "map_of (Players tbl) (ID u) = None"
  then show "updateItem u body tbl = (Inl (HTTPError StatusForbidden ''you are not at the table''), tbl)"
    by (simp add: updateItem_def)
next
  assume "map_of (Players tbl) (ID u) \<noteq> None \<and> Get (Items tbl) (ItemID src) = Some d \<and>
    Class (Items tbl ! d) \<noteq> Class src"
  then show "updateItem u (Inr src) tbl =
        (Inl (HTTPError StatusBadRequest ''attempt to update readonly field .Class''), tbl)"
    by (simp add: updateItem_def Let_def)
next
  assume a: "map_of (Players tbl) (ID u) \<noteq> None \<and> Get (Items tbl) (ItemID src) = Some d \<and>
    Class (Items tbl ! d) = Class src"
  then show "updateItem u (Inr src) tbl =
        (Inr d, tbl\<lparr>Items := (Items tbl)[d := (Items tbl ! d)
           \<lparr>X := X src, Y := Y src,
            Side := (if \<not> IsOwned (Items tbl ! d) \<or> IsOwnedBy (Items tbl ! d) (ID u)
                     then Side src else Side (Items tbl ! d))\<rparr>]\<rparr>)"
    by (simp add: updateItem_def Let_def Side_same IsOwned_def IsOwnedBy_def)
next
  assume a: "map_of (Players tbl) (ID u) \<noteq> None \<and> Get (Items tbl) (ItemID src) = Some d \<and>
    Class (Items tbl ! d) = Class src \<and>
    IsOwned (Items tbl ! d) \<and> \<not> IsOwnedBy (Items tbl ! d) (ID u)"
  then have d: "d < length (Items tbl)" using Get_Some by blast
  from a d show "Side (Items (snd (updateItem u (Inr src) tbl)) ! d) = Side (Items tbl ! d)"
    by (auto simp add: updateItem_def Let_def IsOwned_def IsOwnedBy_def)
  from a d show "X (Items (snd (updateItem u (Inr src) tbl)) ! d) = X src"
    by (auto simp add: updateItem_def Let_def IsOwned_def IsOwnedBy_def)
  from a d show "Y (Items (snd (updateItem u (Inr src) tbl)) ! d) = Y src"
    by (auto simp add: updateItem_def Let_def IsOwned_def IsOwnedBy_def)
qed

lemma chip8_simps:
  "Class chip8 = ChipClass" "ItemID chip8 = 8" "OwnerID chip8 = ''''" "Side chip8 = ''''"
  by (simp_all add: chip8_def AsChip_def NewTableItem_def)

lemma cardA_simps:
  "Class cardA = CardClass" "Rank cardA = ''A''" "Suit cardA = Spades" "Side cardA = Cover"
  "OwnerID cardA = uuid_String 1" "ItemID cardA = 7" "X cardA = 10" "Y cardA = 20"
  by (simp_all add: cardA_def card7_simps user_simps)

lemma table2_seated:
  "map_of (Players table2) (ID userA) = Some playerA"
  "map_of (Players table2) (ID userB) = Some playerB"
  "map_of (Players table2) (ID userD) = None"
  by (simp_all add: table2_def user_simps)

lemma table2_Get:
  "Get (Items table2) 7 = Some 1" "Get (Items table2) 5 = None"
  by (simp_all add: table2_def chip8_simps cardA_simps)

lemma table2_Items: "Items table2 = [chip8, cardA]"
  by (simp add: table2_def)

lemma class_neq: "ChipClass \<noteq> CardClass"
  by (simp add: ChipClass_def CardClass_def)

text \<open>On \<open>table2\<close>, where \<open>userA\<close> holds card 7 cover up: \<open>userD\<close>, not seated, is
  refused; a proposal of another class is refused; \<open>userB\<close> moves the card but does not
  turn it; \<open>userA\<close> moves and turns it.\<close>

theorem updateItem_spec_witness:
  "map_of (Players table2) (ID userD) = None \<and>
   updateItem userD (Inr (cardA\<lparr>X := 100, Y := 200, Side := Face\<rparr>)) table2 =
     (Inl (HTTPError StatusForbidden ''you are not at the table''), table2) \<and>
   map_of (Players table2) (ID userB) \<noteq> None \<and>
   Get (Items table2) (ItemID (chip8\<lparr>ItemID := 7\<rparr>)) = Some 1 \<and>
   Class (Items table2 ! 1) \<noteq> Class (chip8\<lparr>ItemID := 7\<rparr>) \<and>
   updateItem userB (Inr (chip8\<lparr>ItemID := 7\<rparr>)) table2 =
     (Inl (HTTPError StatusBadRequest ''attempt to update readonly field .Class''), table2) \<and>
   IsOwned (Items table2 ! 1) \<and> \<not> IsOwnedBy (Items table2 ! 1) (ID userB) \<and>
   updateItem userB (Inr (cardA\<lparr>X := 100, Y := 200, Side := Face\<rparr>)) table2 =
     (Inr 1, table2\<lparr>Items := [chip8, cardA\<lparr>X := 100, Y := 200\<rparr>]\<rparr>) \<and>
   Side (Items (snd (updateItem userB (Inr (cardA\<lparr>X := 100, Y := 200, Side := Face\<rparr>)) table2)) ! 1)
     = Cover \<and>
   X (Items (snd (updateItem userB (Inr (cardA\<lparr>X := 100, Y := 200, Side := Face\<rparr>)) table2)) ! 1)
     = 100 \<and>
   updateItem userA (Inr (cardA\<lparr>X := 100, Y := 200, Side := Face\<rparr>)) table2 =
     (Inr 1, table2\<lparr>Items := [chip8, cardA\<lparr>X := 100, Y := 200, Side := Face\<rparr>]\<rparr>)"
proof -
  let ?src = "cardA\<lparr>X := 100, Y := 200, Side := Face\<rparr>"
  let ?bad = "chip8\<lparr>ItemID := 7\<rparr>"
  have seatD: "map_of (Players table2) (ID userD) = None"
    by (rule table2_seated)
  have seatB: "map_of (Players table2) (ID userB) \<noteq> None"
    by (simp add: table2_seated)
  have seatA: "map_of (Players table2) (ID userA) \<noteq> None"
    by (simp add: table2_seated)
  have getbad: "Get (Items table2) (ItemID ?bad) = Some 1"
    by (simp add: table2_Get)
  have getsrc: "Get (Items table2) (ItemID ?src) = Some 1"
    by (simp add: table2_Get cardA_simps)
  have clsbad: "Class (Items table2 ! 1) \<noteq> Class ?bad"
    using class_neq by (simp add: table2_Items cardA_simps chip8_simps)
  have clssrc: "Class (Items table2 ! 1) = Class ?src"
    by (simp add: table2_Items)
  have ownB: "IsOwned (Items table2 ! 1) \<and> \<not> IsOwnedBy (Items table2 ! 1) (ID userB)"
    by (simp add: table2_Items IsOwned_def IsOwnedBy_def cardA_simps user_simps
        uuid_String_nonempty uuid_String_12)
  have ownA: "IsOwnedBy (Items table2 ! 1) (ID userA)"
    by (simp add: table2_Items IsOwnedBy_def cardA_simps user_simps)
  have r1: "updateItem userD (Inr ?src) table2 =
      (Inl (HTTPError StatusForbidden ''you are not at the table''), table2)"
    using updateItem_spec [of table2 userD "Inr ?src"] seatD by blast
  have r2: "updateItem userB (Inr ?bad) table2 =
      (Inl (HTTPError StatusBadRequest ''attempt to update readonly field .Class''), table2)"
    using updateItem_spec [of table2 userB _ ?bad 1] seatB getbad clsbad by blast
  have r3: "updateItem userB (Inr ?src) table2 =
      (Inr 1, table2\<lparr>Items := [chip8, cardA\<lparr>X := 100, Y := 200\<rparr>]\<rparr>)"
    using updateItem_spec [of table2 userB _ ?src 1] seatB getsrc clssrc ownB
    by (simp add: table2_Items cardA_simps Side_same)
  have r4: "Side (Items (snd (updateItem userB (Inr ?src) table2)) ! 1) = Side (Items table2 ! 1) \<and>
      X (Items (snd (updateItem userB (Inr ?src) table2)) ! 1) = X ?src"
    using updateItem_spec [of table2 userB _ ?src 1] seatB getsrc clssrc ownB by blast
  have r5: "updateItem userA (Inr ?src) table2 =
      (Inr 1, table2\<lparr>Items := [chip8, cardA\<lparr>X := 100, Y := 200, Side := Face\<rparr>]\<rparr>)"
    using updateItem_spec [of table2 userA _ ?src 1] seatA getsrc clssrc ownA
    by (simp add: table2_Items)
  show ?thesis
    using seatD seatB getbad clsbad ownB r1 r2 r3 r4 r5
    by (simp add: cardA_simps)
qed

section \<open>join: properties\<close>

lemma Update_pure:
  "Update (\<lambda>t w1. Returned (f t) w1) tbl w =
     Returned (f tbl) (w\<lparr>trace := trace w @ [EvLock, EvUnlock]\<rparr>)"
  by (simp add: Update_def)

lemma table3_seated:
  "map_of (Players table3) (ID userA) = Some playerA"
  "map_of (Players table3) (ID userD) = None"
  "len_map (Players table3) = 3"
  by (simp_all add: table3_def user_simps len_map_def)

text \<open>
  Claim C4. At a table whose player map holds three users (the maximum), a join by a user
  who is not seated fails with the error "this table is full", whatever \<open>Join\<close> would do:
  the table comes back as it was, so its player count, its players and its items are
  unchanged, and nothing but taking and releasing the lock has happened.
\<close>

theorem joinTable_full:
  assumes "len_map (Players tbl) = 3" and "map_of (Players tbl) (ID u) = None"
  shows "joinTable Join u tbl w =
           Returned (Inl (HTTPError StatusForbidden ''this table is full''), tbl)
                    (w\<lparr>trace := trace w @ [EvLock, EvUnlock]\<rparr>)"
  using assms by (simp add: joinTable_def Update_pure joinTable_tx_def maxPlayers_def)

text \<open>\<open>userD\<close> at the full \<open>table3\<close>, with a \<open>Join\<close> that would seat the user.\<close>

theorem joinTable_full_witness:
  "len_map (Players table3) = 3 \<and> map_of (Players table3) (ID userD) = None \<and>
   joinTable (\<lambda>t u. ([], t\<lparr>Players := Players t @ [(ID u, newPlayer u ''#FF5733'')]\<rparr>))
       userD table3 world1 =
     Returned (Inl (HTTPError StatusForbidden ''this table is full''), table3)
       (world1\<lparr>trace := [EvLock, EvUnlock]\<rparr>)"
  using joinTable_full [of table3 userD _ world1] table3_seated
  by (simp add: world1_def)

text \<open>
  Claim C9. For a user already seated at the table the join entry point succeeds and does
  nothing: it returns the redirect to the table, \<open>Join\<close> is not called (no player is
  created; seats, items and player count are those of the table given), and the world is
  the one given but for taking and releasing the lock: no channel has received anything.
\<close>

theorem joinTable_seated:
  assumes "map_of (Players tbl) (ID u) \<noteq> None"
  shows "joinTable Join u tbl w =
           Returned (Inr (Redirect (''/games/'' @ uuid_String (TableID tbl))), tbl)
                    (w\<lparr>trace := trace w @ [EvLock, EvUnlock]\<rparr>)"
  using assms by (simp add: joinTable_def Update_pure joinTable_tx_def)

text \<open>\<open>userA\<close>, seated at \<open>table3\<close>, joins again while \<open>userB\<close> listens on channel 0.\<close>

theorem joinTable_seated_witness:
  "map_of (Players table3) (ID userA) \<noteq> None \<and>
   joinTable (\<lambda>t u. ([], t\<lparr>Players := Players t @ [(ID u, newPlayer u ''#FF5733'')]\<rparr>))
       userA table3 world1 =
     Returned (Inr (Redirect ''/games/00000000-0000-0000-0000-000000000009''), table3)
       (world1\<lparr>trace := [EvLock, EvUnlock]\<rparr>)"
proof -
  have s: "uuid_String (TableID table3) = ''00000000-0000-0000-0000-000000000009''"
    unfolding table3_def by code_simp
  show ?thesis
    using joinTable_seated [of table3 userA _ world1] table3_seated s
    by (simp add: world1_def)
qed

section \<open>take-item: properties\<close>

lemma Dispatch_trace:
  "\<exists>v w' cs. Dispatch p push w = Returned v w' \<and> trace w' = trace w @ map EvSend cs"
proof (cases "updates p")
  case None
  then have "Dispatch p push w = Returned (Some p) w \<and> trace w = trace w @ map EvSend []"
    by (simp add: Dispatch_def Dispatch_body_def)
  then show ?thesis by blast
next
  case (Some c)
  show ?thesis
  proof (cases "c < length (chans w) \<and> \<not> closed (chans w ! c)")
    case True
    with Some have "\<exists>w'. Dispatch p push w = Returned (Some p) w' \<and>
        trace w' = trace w @ map EvSend [c]"
      by (simp add: Dispatch_def Dispatch_body_def chan_send_def)
    then show ?thesis by blast
  next
    case False
    with Some have "\<exists>w'. Dispatch p push w = Returned None w' \<and>
        trace w' = trace w @ map EvSend []"
      by (auto simp add: Dispatch_def Dispatch_body_def chan_send_def Error_Printf_def)
    then show ?thesis by blast
  qed
qed

lemma NotifyAll_trace:
  "\<exists>w' cs. NotifyAll pl push w = Returned () w' \<and> trace w' = trace w @ map EvSend cs"
proof (induction pl arbitrary: w)
  case Nil
  have "NotifyAll [] push w = Returned () w \<and> trace w = trace w @ map EvSend []" by simp
  then show ?case by blast
next
  case (Cons p pl)
  obtain v w1 cs1 where d: "Dispatch p push w = Returned v w1" "trace w1 = trace w @ map EvSend cs1"
    using Dispatch_trace by blast
  obtain w2 cs2 where n: "NotifyAll pl push w1 = Returned () w2" "trace w2 = trace w1 @ map EvSend cs2"
    using Cons.IH by blast
  have "NotifyAll (p # pl) push w = Returned () w2 \<and> trace w2 = trace w @ map EvSend (cs1 @ cs2)"
    using d n by simp
  then show ?case by blast
qed

lemma takeCard_after_tx:
  assumes "map_of req ''id'' = Some iD" and "takeCard_tx u iD tbl = (Inr updated0, t')"
  shows "\<exists>w' cs. takeCard u (Inr req) tbl w =
            Returned (Inr (JSONItem StatusOK (updated0\<lparr>Side := Face\<rparr>)), t') w' \<and>
          trace w' = trace w @ [EvLock, EvUnlock, EvRLock] @ map EvSend cs @ [EvRUnlock]"
proof -
  let ?w1 = "w\<lparr>trace := trace w @ [EvLock, EvUnlock]\<rparr>"
  let ?w2 = "?w1\<lparr>trace := trace ?w1 @ [EvRLock]\<rparr>"
  obtain w3 cs where n:
    "NotifyAll (OtherPlayers t' u) (NewPushItems [updated0\<lparr>Side := Face\<rparr>]) ?w2 = Returned () w3"
    "trace w3 = trace ?w2 @ map EvSend cs"
    using NotifyAll_trace by blast
  have "takeCard u (Inr req) tbl w =
      Returned (Inr (JSONItem StatusOK (updated0\<lparr>Side := Face\<rparr>)), t')
        (w3\<lparr>trace := trace w3 @ [EvRUnlock]\<rparr>)"
    using assms n(1)
    by (simp add: takeCard_def Update_pure ReadLock_def takeCard_notify_def Let_def)
  moreover have "trace (w3\<lparr>trace := trace w3 @ [EvRUnlock]\<rparr>) =
      trace w @ [EvLock, EvUnlock, EvRLock] @ map EvSend cs @ [EvRUnlock]"
    using n(2) by simp
  ultimately show ?thesis by blast
qed

text \<open>
  Claim C5. For a seated user and an item id: when no item has the id, take-item fails as
  not found and leaves the table (and every channel) as it was. When item \<open>i\<close> has the
  id, the call returns; the stored item gets the user as its owner id and the orientation
  cover, and the response carries a value of its own: the updated item with the
  orientation face, while the table holds it with cover.
\<close>

theorem takeCard_spec:
  assumes seated: "map_of (Players tbl) (ID u) \<noteq> None"
    and req: "map_of req ''id'' = Some iD"
  shows "(Get (Items tbl) iD = None \<longrightarrow>
            takeCard u (Inr req) tbl w =
              Returned (Inl (HTTPError StatusNotFound ''item not found''), tbl)
                       (w\<lparr>trace := trace w @ [EvLock, EvUnlock]\<rparr>)) \<and>
         (\<forall>i. Get (Items tbl) iD = Some i \<longrightarrow>
            (\<exists>w'. takeCard u (Inr req) tbl w =
               Returned
                 (Inr (JSONItem StatusOK
                    ((Items tbl ! i)\<lparr>OwnerID := uuid_String (ID u), Side := Face\<rparr>)),
                  tbl\<lparr>Items := (Items tbl)
                         [i := (Items tbl ! i)\<lparr>OwnerID := uuid_String (ID u), Side := Cover\<rparr>]\<rparr>)
                 w'))"
proof (intro conjI allI impI)
  assume "Get (Items tbl) iD = None"
  with seated req show "takeCard u (Inr req) tbl w =
      Returned (Inl (HTTPError StatusNotFound ''item not found''), tbl)
               (w\<lparr>trace := trace w @ [EvLock, EvUnlock]\<rparr>)"
    by (auto simp add: takeCard_def Update_pure takeCard_tx_def)
next
  fix i assume g: "Get (Items tbl) iD = Some i"
  let ?stored = "(Items tbl ! i)\<lparr>OwnerID := uuid_String (ID u), Side := Cover\<rparr>"
  have tx: "takeCard_tx u iD tbl = (Inr ?stored, tbl\<lparr>Items := (Items tbl)[i := ?stored]\<rparr>)"
    using seated g by (auto simp add: takeCard_tx_def Take_def Let_def)
  have "?stored\<lparr>Side := Face\<rparr> = (Items tbl ! i)\<lparr>OwnerID := uuid_String (ID u), Side := Face\<rparr>"
    by simp
  with takeCard_after_tx [OF req tx, of w]
  show "\<exists>w'. takeCard u (Inr req) tbl w =
      Returned (Inr (JSONItem StatusOK
                    ((Items tbl ! i)\<lparr>OwnerID := uuid_String (ID u), Side := Face\<rparr>)),
                  tbl\<lparr>Items := (Items tbl)[i := ?stored]\<rparr>) w'"
    by auto
qed

text \<open>
  Claim C10. When the transaction of take-item has left the table \<open>t'\<close> and the copy
  \<open>updated0\<close> of the taken item, the handler returns that copy with orientation face and
  the table \<open>t'\<close> itself: the write of face comes after the exclusive lock is released
  (the trace starts with taking and releasing it) and changes the copy only. The stored
  item is still the value that \<^verbatim>\<open>Take\<close> left, whose copy \<open>updated0\<close> is.
\<close>

theorem takeCard_face_on_copy:
  assumes req: "map_of req ''id'' = Some iD"
    and tx: "takeCard_tx u iD tbl = (Inr updated0, t')"
  shows "\<exists>w' cs. takeCard u (Inr req) tbl w =
            Returned (Inr (JSONItem StatusOK (updated0\<lparr>Side := Face\<rparr>)), t') w' \<and>
          trace w' = trace w @ [EvLock, EvUnlock, EvRLock] @ map EvSend cs @ [EvRUnlock] \<and>
          (\<forall>i. Get (Items tbl) iD = Some i \<longrightarrow>
             Items t' ! i = Take (Items tbl ! i) u \<and> Items t' ! i = updated0)"
proof -
  obtain w' cs where r: "takeCard u (Inr req) tbl w =
            Returned (Inr (JSONItem StatusOK (updated0\<lparr>Side := Face\<rparr>)), t') w'"
      "trace w' = trace w @ [EvLock, EvUnlock, EvRLock] @ map EvSend cs @ [EvRUnlock]"
    using takeCard_after_tx [OF req tx] by blast
  have "\<forall>i. Get (Items tbl) iD = Some i \<longrightarrow>
             Items t' ! i = Take (Items tbl ! i) u \<and> Items t' ! i = updated0"
  proof (intro allI impI)
    fix i assume g: "Get (Items tbl) iD = Some i"
    then have "i < length (Items tbl)" using Get_Some by blast
    with tx g show "Items t' ! i = Take (Items tbl ! i) u \<and> Items t' ! i = updated0"
      by (auto simp add: takeCard_tx_def Let_def split: if_splits)
  qed
  with r show ?thesis by blast
qed

lemma table3_Items: "Items table3 = [chip8, card7]"
  by (simp add: table3_def)

lemma table3_Get: "Get (Items table3) 7 = Some 1" "Get (Items table3) 5 = None"
  by (simp_all add: table3_def chip8_simps card7_simps)

lemma table3_others: "OtherPlayers table3_taken userA = [playerB, playerC]"
  by (simp add: OtherPlayers_def table3_taken_def table3_def user_simps)

lemma takeCard_tx_table3:
  "takeCard_tx userA 7 table3 =
     (Inr (card7\<lparr>OwnerID := uuid_String 1, Side := Cover\<rparr>), table3_taken)"
  by (simp add: takeCard_tx_def table3_seated table3_Get Let_def Take_def)
    (simp add: table3_Items user_simps table3_taken_def)

text \<open>\<open>userA\<close> asks for item 5, which is not on \<open>table3\<close>, and takes card 7.\<close>

theorem takeCard_spec_witness:
  "map_of (Players table3) (ID userA) \<noteq> None \<and>
   map_of [(''id'', 5)] ''id'' = Some (5::int) \<and> Get (Items table3) 5 = None \<and>
   takeCard userA (Inr [(''id'', 5)]) table3 world1 =
     Returned (Inl (HTTPError StatusNotFound ''item not found''), table3)
       (world1\<lparr>trace := [EvLock, EvUnlock]\<rparr>) \<and>
   map_of [(''id'', 7)] ''id'' = Some (7::int) \<and> Get (Items table3) 7 = Some 1 \<and>
   (\<exists>w'. takeCard userA (Inr [(''id'', 7)]) table3 world1 =
      Returned (Inr (JSONItem StatusOK cardA_face), table3_taken) w') \<and>
   OwnerID (Items table3_taken ! 1) = uuid_String (ID userA) \<and>
   Side (Items table3_taken ! 1) = Cover"
proof -
  have seated: "map_of (Players table3) (ID userA) \<noteq> None"
    by (simp add: table3_seated)
  have r5: "map_of [(''id'', 5)] ''id'' = Some (5::int)" by simp
  have r7: "map_of [(''id'', 7)] ''id'' = Some (7::int)" by simp
  have nf: "takeCard userA (Inr [(''id'', 5)]) table3 world1 =
     Returned (Inl (HTTPError StatusNotFound ''item not found''), table3)
       (world1\<lparr>trace := trace world1 @ [EvLock, EvUnlock]\<rparr>)"
    using takeCard_spec [OF seated r5, of world1] table3_Get by blast
  have ok: "\<exists>w'. takeCard userA (Inr [(''id'', 7)]) table3 world1 =
      Returned (Inr (JSONItem StatusOK
                    ((Items table3 ! 1)\<lparr>OwnerID := uuid_String (ID userA), Side := Face\<rparr>)),
                  table3\<lparr>Items := (Items table3)
                         [1 := (Items table3 ! 1)\<lparr>OwnerID := uuid_String (ID userA), Side := Cover\<rparr>]\<rparr>)
                 w'"
    using takeCard_spec [OF seated r7, of world1] table3_Get by blast
  have ok': "\<exists>w'. takeCard userA (Inr [(''id'', 7)]) table3 world1 =
      Returned (Inr (JSONItem StatusOK cardA_face), table3_taken) w'"
    using ok by (simp add: table3_Items user_simps cardA_face_def table3_taken_def)
  show ?thesis
    using seated r5 r7 nf ok' table3_Get
    by (simp add: world1_def table3_taken_def user_simps)
qed

text \<open>\<open>userA\<close> takes card 7 on \<open>table3\<close>: the response shows it face up, the table
  holds it cover up.\<close>

theorem takeCard_face_on_copy_witness:
  "map_of [(''id'', 7)] ''id'' = Some (7::int) \<and>
   takeCard_tx userA 7 table3 =
     (Inr (card7\<lparr>OwnerID := uuid_String 1, Side := Cover\<rparr>), table3_taken) \<and>
   (\<exists>w' cs. takeCard userA (Inr [(''id'', 7)]) table3 world1 =
        Returned (Inr (JSONItem StatusOK cardA_face), table3_taken) w' \<and>
      trace w' = [EvLock, EvUnlock, EvRLock] @ map EvSend cs @ [EvRUnlock]) \<and>
   Side (Items table3_taken ! 1) = Cover"
proof -
  have r7: "map_of [(''id'', 7)] ''id'' = Some (7::int)" by simp
  have "\<exists>w' cs. takeCard userA (Inr [(''id'', 7)]) table3 world1 =
        Returned (Inr (JSONItem StatusOK
           (card7\<lparr>OwnerID := uuid_String 1, Side := Cover\<rparr>\<lparr>Side := Face\<rparr>)), table3_taken) w' \<and>
      trace w' = trace world1 @ [EvLock, EvUnlock, EvRLock] @ map EvSend cs @ [EvRUnlock]"
    using takeCard_face_on_copy [OF r7 takeCard_tx_table3, of world1] by blast
  then have "\<exists>w' cs. takeCard userA (Inr [(''id'', 7)]) table3 world1 =
        Returned (Inr (JSONItem StatusOK cardA_face), table3_taken) w' \<and>
      trace w' = [EvLock, EvUnlock, EvRLock] @ map EvSend cs @ [EvRUnlock]"
    by (simp add: cardA_face_def world1_def)
  then show ?thesis
    using r7 takeCard_tx_table3 by (simp add: table3_taken_def)
qed

section \<open>Sends and locks: properties\<close>

text \<open>
  Claim C2. No push is sent to a player's channel while the sending task holds the table's
  exclusive or shared lock. Take-item breaks this: \<open>userA\<close> takes card 7 on \<open>table3\<close>
  while \<open>userB\<close> listens on channel 0; the push reaches the channel between taking and
  releasing the shared lock, because \<^verbatim>\<open>NotifyAll\<close> is called inside the function given
  to \<^verbatim>\<open>ReadLock\<close>.
\<close>

theorem takeCard_sends_under_lock:
  "takeCard userA (Inr [(''id'', 7)]) table3 world1 =
     Returned (Inr (JSONItem StatusOK cardA_face), table3_taken)
       \<lparr>chans = [\<lparr>closed = False, queue = [NewPushItems [cardA_face]]\<rparr>], logs = [],
        trace = [EvLock, EvUnlock, EvRLock, EvSend 0, EvRUnlock]\<rparr> \<and>
   \<not> sends_outside_locks 0 [EvLock, EvUnlock, EvRLock, EvSend 0, EvRUnlock]"
  by (simp add: takeCard_def Update_pure takeCard_tx_table3 ReadLock_def takeCard_notify_def
      table3_others cardA_face_def world1_def Let_def Dispatch_def Dispatch_body_def
      chan_send_def playerB_def playerC_def newPlayer_def)

text \<open>Update-item and join keep the rule: their sends come after the lock is released.\<close>

lemma sends_outside_locks_sends: "sends_outside_locks 0 (map EvSend cs)"
  by (induction cs) simp_all

lemma updateTable_sends_outside_locks:
  assumes "trace w = []" and "updateTable u body tbl w = Returned rt w'"
  shows "sends_outside_locks 0 (trace w')"
proof (cases "updateTable_tx u body tbl")
  case (Pair r t')
  show ?thesis
  proof (cases r)
    case (Inl err)
    with Pair assms show ?thesis
      by (auto simp add: updateTable_def Update_pure)
  next
    case (Inr un)
    obtain updated notifyThem where un: "un = (updated, notifyThem)" by (cases un)
    obtain w2 cs where n:
      "NotifyAll notifyThem (NewPushItems [updated]) (w\<lparr>trace := trace w @ [EvLock, EvUnlock]\<rparr>)
         = Returned () w2"
      "trace w2 = trace (w\<lparr>trace := trace w @ [EvLock, EvUnlock]\<rparr>) @ map EvSend cs"
      using NotifyAll_trace by blast
    from Pair Inr un n assms show ?thesis
      by (auto simp add: updateTable_def Update_pure sends_outside_locks_sends)
  qed
qed

lemma joinTable_sends_outside_locks:
  assumes "trace w = []" and "joinTable Join u tbl w = Returned rt w'"
  shows "sends_outside_locks 0 (trace w')"
proof (cases "joinTable_tx Join u tbl")
  case (Pair r t')
  show ?thesis
  proof (cases r)
    case (Inl err)
    with Pair assms show ?thesis
      by (auto simp add: joinTable_def Update_pure)
  next
    case (Inr pun)
    obtain players updated notifyThem where pun: "pun = (players, updated, notifyThem)"
      by (cases pun)
    obtain w2 cs where n:
      "NotifyAll notifyThem (NewPushPlayerJoined players updated)
         (w\<lparr>trace := trace w @ [EvLock, EvUnlock]\<rparr>) = Returned () w2"
      "trace w2 = trace (w\<lparr>trace := trace w @ [EvLock, EvUnlock]\<rparr>) @ map EvSend cs"
      using NotifyAll_trace by blast
    from Pair Inr pun n assms show ?thesis
      by (auto simp add: joinTable_def Update_pure sends_outside_locks_sends)
  qed
qed

section \<open>Subscribe, Unsubscribe and Dispatch: properties\<close>

text \<open>\<^verbatim>\<open>Subscribe\<close> on a player without a channel attaches the new channel; on a player
  whose attached channel is open it closes that channel and attaches the new one.\<close>

lemma Subscribe_detached:
  assumes "updates p = None"
  shows "Subscribe p new w =
           Returned (p\<lparr>updates := Some new\<rparr>, Some (p\<lparr>updates := Some new\<rparr>)) w"
  using assms by (simp add: Subscribe_def Let_def)

lemma Subscribe_live:
  assumes "updates p = Some old" and "old < length (chans w)" and "\<not> closed (chans w ! old)"
  shows "Subscribe p new w =
           Returned (p\<lparr>updates := Some new\<rparr>, Some (p\<lparr>updates := Some new\<rparr>))
             (w\<lparr>chans := (chans w)[old := (chans w ! old)\<lparr>closed := True\<rparr>]\<rparr>)"
  using assms by (simp add: Subscribe_def chan_close_def Let_def)

text \<open>When the attached channel is closed already, \<^verbatim>\<open>close\<close> panics, the deferred
  function recovers and logs, and the assignment of the new channel is not reached: the
  player keeps the closed channel, for this and every later \<^verbatim>\<open>Subscribe\<close>.\<close>

lemma Subscribe_closed_attached:
  assumes "updates p = Some old" and "old < length (chans w)" and "closed (chans w ! old)"
  shows "Subscribe p new w =
           Returned (p, None)
             (Error_Printf (''Player.Subscribe name='' @ Name (User p) @
                            '' panic: close of closed channel'') w)"
  using assms by (simp add: Subscribe_def chan_close_def)

text \<open>
  Claim C8. A player has at most one live subscriber channel: \<^verbatim>\<open>Subscribe\<close> with a new
  channel closes the attached channel, if there is one, and then attaches the new one.
  The code breaks this once the attached channel has been closed without
  \<^verbatim>\<open>Unsubscribe\<close>, as the listen loop does on a broken pipe. \<open>playerA\<close> subscribes with
  the fresh channel 0; the loop closes channel 0; a new connection makes channel 1 and
  subscribes with it. That \<^verbatim>\<open>Subscribe\<close> returns \<^verbatim>\<open>nil\<close> and logs the recovered panic,
  the player still holds the closed channel 0, the open channel 1 is attached to nobody,
  and a push dispatched to the player afterwards is lost in another recovered panic.
\<close>

theorem Subscribe_keeps_closed_channel:
  "Subscribe playerA (fst (make_chan world0)) (snd (make_chan world0)) =
     Returned (playerA_listening, Some playerA_listening) world1 \<and>
   chan_close 0 world1 = Returned () world_gone \<and>
   make_chan world_gone = (1, world_again) \<and>
   Subscribe playerA_listening 1 world_again =
     Returned (playerA_listening, None)
       (world_again\<lparr>logs := [''Player.Subscribe name=alice panic: close of closed channel'']\<rparr>) \<and>
   updates playerA_listening = Some 0 \<and>
   closed (chans world_again ! 0) \<and> \<not> closed (chans world_again ! 1) \<and>
   Dispatch playerA_listening NewPushRefresh world_again =
     Returned None
       (world_again\<lparr>logs := [''Player.Dispatch name=alice panic: send on closed channel'']\<rparr>)"
  by (simp add: Subscribe_def Dispatch_def Dispatch_body_def chan_send_def chan_close_def
      make_chan_def Error_Printf_def Let_def playerA_listening_def playerA_def newPlayer_def
      world0_def world1_def world_gone_def world_again_def user_simps)

text \<open>
  Claim C7. \<^verbatim>\<open>Dispatch\<close> puts the event on the player's channel when a channel is attached
  (and open); with no channel attached it changes nothing: the event is dropped, nothing
  is logged or stored. When the attached channel has been closed, the send panics in the
  body, and \<^verbatim>\<open>Dispatch\<close> still returns to its caller, with one line added to the error
  log. In every case \<^verbatim>\<open>Dispatch\<close> returns; no panic reaches the caller.
\<close>

theorem Dispatch_spec:
  "(updates p = None \<longrightarrow> Dispatch p push w = Returned (Some p) w) \<and>
   (\<forall>c. updates p = Some c \<and> c < length (chans w) \<and> \<not> closed (chans w ! c) \<longrightarrow>
      Dispatch p push w =
        Returned (Some p)
          (w\<lparr>chans := (chans w)[c := (chans w ! c)\<lparr>queue := queue (chans w ! c) @ [push]\<rparr>],
             trace := trace w @ [EvSend c]\<rparr>)) \<and>
   (\<forall>c. updates p = Some c \<and> c < length (chans w) \<and> closed (chans w ! c) \<longrightarrow>
      Dispatch_body p push w = Panicked ''send on closed channel'' w \<and>
      Dispatch p push w =
        Returned None
          (w\<lparr>logs := logs w @
              [''Player.Dispatch name='' @ Name (User p) @ '' panic: send on closed channel'']\<rparr>)) \<and>
   (\<exists>v w'. Dispatch p push w = Returned v w')"
proof (intro conjI allI impI)
  assume "updates p = None"
  then show "Dispatch p push w = Returned (Some p) w"
    by (simp add: Dispatch_def Dispatch_body_def)
next
  fix c assume "updates p = Some c \<and> c < length (chans w) \<and> \<not> closed (chans w ! c)"
  then show "Dispatch p push w =
        Returned (Some p)
          (w\<lparr>chans := (chans w)[c := (chans w ! c)\<lparr>queue := queue (chans w ! c) @ [push]\<rparr>],
             trace := trace w @ [EvSend c]\<rparr>)"
    by (simp add: Dispatch_def Dispatch_body_def chan_send_def)
next
  fix c assume a: "updates p = Some c \<and> c < length (chans w) \<and> closed (chans w ! c)"
  then show "Dispatch_body p push w = Panicked ''send on closed channel'' w"
    by (simp add: Dispatch_body_def chan_send_def)
  from a show "Dispatch p push w =
        Returned None
          (w\<lparr>logs := logs w @
              [''Player.Dispatch name='' @ Name (User p) @ '' panic: send on closed channel'']\<rparr>)"
    by (simp add: Dispatch_def Dispatch_body_def chan_send_def Error_Printf_def)
next
  show "\<exists>v w'. Dispatch p push w = Returned v w'"
    using Dispatch_trace by blast
qed

text \<open>A refresh dispatched to \<open>playerC\<close>, who has no channel, to \<open>playerB\<close> on the open
  channel 0, and to \<open>playerB\<close> after channel 0 has been closed.\<close>

theorem Dispatch_spec_witness:
  "updates playerC = None \<and>
   Dispatch playerC NewPushRefresh world1 = Returned (Some playerC) world1 \<and>
   updates playerB = Some 0 \<and> 0 < length (chans world1) \<and> \<not> closed (chans world1 ! 0) \<and>
   Dispatch playerB NewPushRefresh world1 =
     Returned (Some playerB)
       (world1\<lparr>chans := [\<lparr>closed = False, queue = [NewPushRefresh]\<rparr>], trace := [EvSend 0]\<rparr>) \<and>
   closed (chans (world1\<lparr>chans := [\<lparr>closed = True, queue = []\<rparr>]\<rparr>) ! 0) \<and>
   Dispatch playerB NewPushRefresh (world1\<lparr>chans := [\<lparr>closed = True, queue = []\<rparr>]\<rparr>) =
     Returned None
       (world1\<lparr>chans := [\<lparr>closed = True, queue = []\<rparr>],
               logs := [''Player.Dispatch name=bob panic: send on closed channel'']\<rparr>)"
proof -
  let ?wc = "world1\<lparr>chans := [\<lparr>closed = True, queue = []\<rparr>]\<rparr>"
  have a: "updates playerC = None"
    by (simp add: playerC_def newPlayer_def)
  have b: "updates playerB = Some 0 \<and> 0 < length (chans world1) \<and> \<not> closed (chans world1 ! 0)"
    by (simp add: playerB_def world1_def)
  have c: "updates playerB = Some 0 \<and> 0 < length (chans ?wc) \<and> closed (chans ?wc ! 0)"
    by (simp add: playerB_def)
  have r1: "Dispatch playerC NewPushRefresh world1 = Returned (Some playerC) world1"
    using Dispatch_spec [of playerC NewPushRefresh world1] a by blast
  have r2: "Dispatch playerB NewPushRefresh world1 =
        Returned (Some playerB)
          (world1\<lparr>chans := (chans world1)[0 := (chans world1 ! 0)
                      \<lparr>queue := queue (chans world1 ! 0) @ [NewPushRefresh]\<rparr>],
             trace := trace world1 @ [EvSend 0]\<rparr>)"
    using Dispatch_spec [of playerB NewPushRefresh world1] b by blast
  have r3: "Dispatch playerB NewPushRefresh ?wc =
        Returned None
          (?wc\<lparr>logs := logs ?wc @
              [''Player.Dispatch name='' @ Name (User playerB) @
               '' panic: send on closed channel'']\<rparr>)"
    using Dispatch_spec [of playerB NewPushRefresh ?wc] c by blast
  have n: "Name (User playerB) = ''bob''"
    by (simp add: playerB_def newPlayer_def user_simps)
  show ?thesis
    using a b c r1 r2 r3 n by (simp add: world1_def)
qed

end
